theory Spec2Isabelle
  imports Complex_Main
begin

section \<open>JavaScript numbers\<close>

text \<open>
  Every quantity of \<^verbatim>\<open>weibull.js\<close> is a JavaScript number. The embedding keeps the
  special values of the number type, because the code branches on them and returns them
  (\<^verbatim>\<open>Infinity\<close>, \<^verbatim>\<open>NaN\<close>, comparisons that are false on \<^verbatim>\<open>NaN\<close>), and takes the
  finite values as exact reals: a finite operation is the real operation, with no rounding,
  no overflow and no underflow, and the two zeros are one value (a division by zero is a
  division by \<^verbatim>\<open>+0\<close>). The literals \<^verbatim>\<open>1e-6\<close>, \<^verbatim>\<open>1e12\<close>, \<^verbatim>\<open>0.1\<close> are the decimal
  fractions they denote.
\<close>

datatype jsnum = Fin real | PInf | NInf | NaN

fun is_finite :: "jsnum \<Rightarrow> bool" where
  "is_finite (Fin x) = True"
| "is_finite PInf = False"
| "is_finite NInf = False"
| "is_finite NaN = False"

fun js_neg :: "jsnum \<Rightarrow> jsnum" where
  "js_neg (Fin x) = Fin (- x)"
| "js_neg PInf = NInf"
| "js_neg NInf = PInf"
| "js_neg NaN = NaN"

fun js_add :: "jsnum \<Rightarrow> jsnum \<Rightarrow> jsnum" where
  "js_add (Fin x) (Fin y) = Fin (x + y)"
| "js_add NaN b = NaN"
| "js_add a NaN = NaN"
| "js_add PInf NInf = NaN"
| "js_add NInf PInf = NaN"
| "js_add PInf b = PInf"
| "js_add a PInf = PInf"
| "js_add NInf b = NInf"
| "js_add a NInf = NInf"

definition js_sub :: "jsnum \<Rightarrow> jsnum \<Rightarrow> jsnum" where
  "js_sub a b = js_add a (js_neg b)"

text \<open>The sign of a product or quotient with an infinite operand.\<close>

definition signed_inf :: "bool \<Rightarrow> jsnum" where
  "signed_inf pos = (if pos then PInf else NInf)"

fun js_mul :: "jsnum \<Rightarrow> jsnum \<Rightarrow> jsnum" where
  "js_mul (Fin x) (Fin y) = Fin (x * y)"
| "js_mul NaN b = NaN"
| "js_mul a NaN = NaN"
| "js_mul PInf (Fin y) = (if y = 0 then NaN else signed_inf (0 < y))"
| "js_mul NInf (Fin y) = (if y = 0 then NaN else signed_inf (y < 0))"
| "js_mul (Fin x) PInf = (if x = 0 then NaN else signed_inf (0 < x))"
| "js_mul (Fin x) NInf = (if x = 0 then NaN else signed_inf (x < 0))"
| "js_mul PInf PInf = PInf"
| "js_mul PInf NInf = NInf"
| "js_mul NInf PInf = NInf"
| "js_mul NInf NInf = PInf"

fun js_div :: "jsnum \<Rightarrow> jsnum \<Rightarrow> jsnum" where
  "js_div (Fin x) (Fin y) =
     (if y = 0 then (if x = 0 then NaN else signed_inf (0 < x)) else Fin (x / y))"
| "js_div NaN b = NaN"
| "js_div a NaN = NaN"
| "js_div (Fin x) PInf = Fin 0"
| "js_div (Fin x) NInf = Fin 0"
| "js_div PInf (Fin y) = signed_inf (0 \<le> y)"
| "js_div NInf (Fin y) = signed_inf (y < 0)"
| "js_div PInf PInf = NaN"
| "js_div PInf NInf = NaN"
| "js_div NInf PInf = NaN"
| "js_div NInf NInf = NaN"

text \<open>The comparisons \<^verbatim>\<open><\<close> and \<^verbatim>\<open><=\<close>: false as soon as an operand is \<^verbatim>\<open>NaN\<close>.\<close>

fun js_lt :: "jsnum \<Rightarrow> jsnum \<Rightarrow> bool" where
  "js_lt (Fin x) (Fin y) = (x < y)"
| "js_lt NaN b = False"
| "js_lt a NaN = False"
| "js_lt a NInf = False"
| "js_lt PInf b = False"
| "js_lt NInf b = True"
| "js_lt a PInf = True"

fun js_le :: "jsnum \<Rightarrow> jsnum \<Rightarrow> bool" where
  "js_le (Fin x) (Fin y) = (x \<le> y)"
| "js_le NaN b = False"
| "js_le a NaN = False"
| "js_le NInf b = True"
| "js_le a PInf = True"
| "js_le a NInf = False"
| "js_le PInf b = False"

text \<open>\<^verbatim>\<open>Math.abs\<close>, \<^verbatim>\<open>Math.max\<close>, \<^verbatim>\<open>Math.min\<close> (both \<^verbatim>\<open>NaN\<close> when an argument is),
  \<^verbatim>\<open>Math.floor\<close>, \<^verbatim>\<open>Math.ceil\<close>, \<^verbatim>\<open>Math.sqrt\<close>, \<^verbatim>\<open>Math.exp\<close>, \<^verbatim>\<open>Math.log\<close>.\<close>

fun js_abs :: "jsnum \<Rightarrow> jsnum" where
  "js_abs (Fin x) = Fin \<bar>x\<bar>"
| "js_abs PInf = PInf"
| "js_abs NInf = PInf"
| "js_abs NaN = NaN"

fun js_max :: "jsnum \<Rightarrow> jsnum \<Rightarrow> jsnum" where
  "js_max (Fin x) (Fin y) = Fin (max x y)"
| "js_max NaN b = NaN"
| "js_max a NaN = NaN"
| "js_max PInf b = PInf"
| "js_max a PInf = PInf"
| "js_max NInf b = b"
| "js_max a NInf = a"

fun js_min :: "jsnum \<Rightarrow> jsnum \<Rightarrow> jsnum" where
  "js_min (Fin x) (Fin y) = Fin (min x y)"
| "js_min NaN b = NaN"
| "js_min a NaN = NaN"
| "js_min NInf b = NInf"
| "js_min a NInf = NInf"
| "js_min PInf b = b"
| "js_min a PInf = a"

fun js_floor :: "jsnum \<Rightarrow> jsnum" where
  "js_floor (Fin x) = Fin (of_int \<lfloor>x\<rfloor>)"
| "js_floor a = a"

fun js_ceil :: "jsnum \<Rightarrow> jsnum" where
  "js_ceil (Fin x) = Fin (of_int \<lceil>x\<rceil>)"
| "js_ceil a = a"

fun js_sqrt :: "jsnum \<Rightarrow> jsnum" where
  "js_sqrt (Fin x) = (if x < 0 then NaN else Fin (sqrt x))"
| "js_sqrt PInf = PInf"
| "js_sqrt NInf = NaN"
| "js_sqrt NaN = NaN"

fun js_exp :: "jsnum \<Rightarrow> jsnum" where
  "js_exp (Fin x) = Fin (exp x)"
| "js_exp PInf = PInf"
| "js_exp NInf = Fin 0"
| "js_exp NaN = NaN"

fun js_log :: "jsnum \<Rightarrow> jsnum" where
  "js_log (Fin x) = (if x < 0 then NaN else if x = 0 then NInf else Fin (ln x))"
| "js_log PInf = PInf"
| "js_log NInf = NaN"
| "js_log NaN = NaN"

text \<open>
  \<^verbatim>\<open>Math.pow(base, exponent)\<close> and the operator \<^verbatim>\<open>**\<close>, in the case order of the
  language definition: a \<^verbatim>\<open>NaN\<close> exponent, a zero exponent, a \<^verbatim>\<open>NaN\<close> base, an
  infinite base, a zero base, an infinite exponent, a negative base with a fractional
  exponent, and the power itself.
\<close>

definition odd_integer :: "real \<Rightarrow> bool" where
  "odd_integer y = (y = of_int \<lfloor>y\<rfloor> \<and> odd \<lfloor>y\<rfloor>)"

fun js_pow :: "jsnum \<Rightarrow> jsnum \<Rightarrow> jsnum" where
  "js_pow b NaN = NaN"
| "js_pow NaN (Fin y) = (if y = 0 then Fin 1 else NaN)"
| "js_pow NaN e = NaN"
| "js_pow PInf (Fin y) = (if y = 0 then Fin 1 else if 0 < y then PInf else Fin 0)"
| "js_pow PInf PInf = PInf"
| "js_pow PInf NInf = Fin 0"
| "js_pow NInf (Fin y) =
     (if y = 0 then Fin 1
      else if 0 < y then (if odd_integer y then NInf else PInf)
      else Fin 0)"
| "js_pow NInf PInf = PInf"
| "js_pow NInf NInf = Fin 0"
| "js_pow (Fin x) PInf =
     (if x = 0 then Fin 0
      else if 1 < \<bar>x\<bar> then PInf else if \<bar>x\<bar> = 1 then NaN else Fin 0)"
| "js_pow (Fin x) NInf =
     (if x = 0 then PInf
      else if 1 < \<bar>x\<bar> then Fin 0 else if \<bar>x\<bar> = 1 then NaN else PInf)"
| "js_pow (Fin x) (Fin y) =
     (if y = 0 then Fin 1
      else if x = 0 then (if 0 < y then Fin 0 else PInf)
      else if 0 < x then Fin (x powr y)
      else if y = of_int \<lfloor>y\<rfloor> then
        (if odd \<lfloor>y\<rfloor> then Fin (- (\<bar>x\<bar> powr y)) else Fin (\<bar>x\<bar> powr y))
      else NaN)"

section \<open>Reliability functions\<close>

text \<open>\<^verbatim>\<open>function R_weibull(t, beta, eta){ return Math.exp(-Math.pow(t/eta, beta)); }\<close>\<close>

definition R_weibull :: "jsnum \<Rightarrow> jsnum \<Rightarrow> jsnum \<Rightarrow> jsnum" where
  "R_weibull t beta eta = js_exp (js_neg (js_pow (js_div t eta) beta))"

section \<open>Censored likelihood\<close>

text \<open>
  A point of the parameter plane is a two-element array \<^verbatim>\<open>[beta, eta]\<close>, here a pair.
  \<^verbatim>\<open>negLogLik\<close> returns \<^verbatim>\<open>1e12\<close> at once when a parameter is at or below \<^verbatim>\<open>1e-6\<close>;
  otherwise it runs two accumulating loops over the failures and the suspensions and
  returns the negated accumulator.
\<close>

type_synonym point = "jsnum \<times> jsnum"

definition failure_term :: "jsnum \<Rightarrow> jsnum \<Rightarrow> jsnum \<Rightarrow> jsnum" where
  "failure_term beta eta t =
     js_sub (js_add (js_log (js_div beta eta))
                    (js_mul (js_sub beta (Fin 1)) (js_log (js_div t eta))))
            (js_pow (js_div t eta) beta)"

definition susp_term :: "jsnum \<Rightarrow> jsnum \<Rightarrow> jsnum \<Rightarrow> jsnum" where
  "susp_term beta eta s = js_neg (js_pow (js_div s eta) beta)"

definition negLogLik :: "point \<Rightarrow> jsnum list \<Rightarrow> jsnum list \<Rightarrow> jsnum" where
  "negLogLik params failures susp =
     (let beta = fst params; eta = snd params in
      if js_le beta (Fin (1 / 1000000)) \<or> js_le eta (Fin (1 / 1000000))
      then Fin 1000000000000
      else
        let ll = Fin 0;
            ll = (if length failures > 0
                  then foldl (\<lambda>ll t. js_add ll (failure_term beta eta t)) ll failures
                  else ll);
            ll = (if length susp > 0
                  then foldl (\<lambda>ll s. js_add ll (susp_term beta eta s)) ll susp
                  else ll)
        in js_neg ll)"

text \<open>
  The formula of the specification, written as it stands there: the sum over the failures
  plus the sum over the suspensions, negated.
\<close>

definition js_sum :: "jsnum list \<Rightarrow> jsnum" where
  "js_sum xs = foldr js_add xs (Fin 0)"

definition negLogLik_spec :: "jsnum \<Rightarrow> jsnum \<Rightarrow> jsnum list \<Rightarrow> jsnum list \<Rightarrow> jsnum" where
  "negLogLik_spec beta eta failures susp =
     js_neg (js_add
       (js_sum (map (\<lambda>t. js_sub (js_add (js_log (js_div beta eta))
                                          (js_mul (js_sub beta (Fin 1)) (js_log (js_div t eta))))
                                  (js_pow (js_div t eta) beta)) failures))
       (js_sum (map (\<lambda>s. js_neg (js_pow (js_div s eta) beta)) susp)))"

section \<open>Nelder-Mead\<close>

text \<open>
  The operator \<^verbatim>\<open>||\<close> on numbers yields its right operand when the left one is falsy,
  that is \<^verbatim>\<open>0\<close> or \<^verbatim>\<open>NaN\<close> (or, for a missing option, \<^verbatim>\<open>undefined\<close>).
\<close>

fun falsy :: "jsnum \<Rightarrow> bool" where
  "falsy (Fin x) = (x = 0)"
| "falsy NaN = True"
| "falsy PInf = False"
| "falsy NInf = False"

definition js_or :: "jsnum \<Rightarrow> jsnum \<Rightarrow> jsnum" where
  "js_or a b = (if falsy a then b else a)"

text \<open>
  The options object \<^verbatim>\<open>{maxIter, tol}\<close>; a missing field is \<open>None\<close>. The iteration cap
  is an iteration count, a natural number.
\<close>

record options =
  maxIter :: "nat option"
  tol :: "jsnum option"

text \<open>\<^verbatim>\<open>const maxIter = options.maxIter||2000; const tol = options.tol||1e-6;\<close>\<close>

definition nm_maxIter :: "options \<Rightarrow> nat" where
  "nm_maxIter opts = (case maxIter opts of None \<Rightarrow> 2000 | Some m \<Rightarrow> if m = 0 then 2000 else m)"

definition nm_tol :: "options \<Rightarrow> jsnum" where
  "nm_tol opts = (case tol opts of None \<Rightarrow> Fin (1 / 1000000) | Some v \<Rightarrow> js_or v (Fin (1 / 1000000)))"

definition no_options :: options where
  "no_options = \<lparr>maxIter = None, tol = None\<rparr>"

text \<open>\<^verbatim>\<open>const alpha=1, gamma=2, rho=0.5, sigma=0.5;\<close>\<close>

definition alpha :: jsnum where "alpha = Fin 1"
definition gamma :: jsnum where "gamma = Fin 2"
definition rho :: jsnum where "rho = Fin (1 / 2)"
definition sigma :: jsnum where "sigma = Fin (1 / 2)"

text \<open>
  The initial simplex:
  \<^verbatim>\<open>[x0, [x0[0]+0.1*Math.max(1,Math.abs(x0[0])), x0[1]], [x0[0], x0[1]+0.1*Math.max(1,Math.abs(x0[1]))]]\<close>.
\<close>

definition init_simplex :: "point \<Rightarrow> point list" where
  "init_simplex x0 =
     [x0,
      (js_add (fst x0) (js_mul (Fin (1 / 10)) (js_max (Fin 1) (js_abs (fst x0)))), snd x0),
      (fst x0, js_add (snd x0) (js_mul (Fin (1 / 10)) (js_max (Fin 1) (js_abs (snd x0)))))]"

text \<open>
  \<^verbatim>\<open>Array.prototype.sort\<close> with a comparison function: a stable sort in which \<open>x\<close> goes
  after \<open>y\<close> when the comparison of \<open>x\<close> with \<open>y\<close> is positive; a \<^verbatim>\<open>NaN\<close> comparison
  counts as zero. It is written as a stable insertion sort. (Where \<^verbatim>\<open>NaN\<close> results make
  the comparison inconsistent the language leaves the order to the implementation; the
  properties below that involve such arrays do not depend on the order chosen.)
\<close>

fun js_insert :: "('a \<Rightarrow> 'a \<Rightarrow> jsnum) \<Rightarrow> 'a \<Rightarrow> 'a list \<Rightarrow> 'a list" where
  "js_insert cmp x [] = [x]"
| "js_insert cmp x (y # ys) =
     (if js_lt (Fin 0) (cmp x y) then y # js_insert cmp x ys else x # y # ys)"

definition js_sort :: "('a \<Rightarrow> 'a \<Rightarrow> jsnum) \<Rightarrow> 'a list \<Rightarrow> 'a list" where
  "js_sort cmp xs = foldr (js_insert cmp) xs []"

text \<open>\<^verbatim>\<open>fx.map((v,i)=>[v,i]).sort((a,b)=>a[0]-b[0]).map(x=>x[1])\<close>\<close>

definition sort_indices :: "jsnum list \<Rightarrow> nat list" where
  "sort_indices fx =
     map snd (js_sort (\<lambda>a b. js_sub (fst a) (fst b)) (zip fx [0 ..< length fx]))"

text \<open>
  The four trial points have one shape, \<open>base + coef * (p - q)\<close> in each coordinate:
  reflection \<^verbatim>\<open>x0m + alpha*(x0m - simplex[2])\<close>, expansion \<^verbatim>\<open>x0m + gamma*(xr - x0m)\<close>,
  contraction \<^verbatim>\<open>x0m + rho*(simplex[2] - x0m)\<close> and the shrink
  \<^verbatim>\<open>simplex[0] + sigma*(simplex[i] - simplex[0])\<close>.
\<close>

definition nm_move :: "point \<Rightarrow> jsnum \<Rightarrow> point \<Rightarrow> point \<Rightarrow> point" where
  "nm_move base coef p q =
     (js_add (fst base) (js_mul coef (js_sub (fst p) (fst q))),
      js_add (snd base) (js_mul coef (js_sub (snd p) (snd q))))"

type_synonym nm_state = "point list \<times> jsnum list"

text \<open>One pass of the loop body, up to the convergence test.\<close>

definition nm_step :: "(point \<Rightarrow> jsnum) \<Rightarrow> nm_state \<Rightarrow> nm_state" where
  "nm_step f st =
     (let simplex = fst st; fx = snd st;
          idx = sort_indices fx;
          simplex = [simplex ! (idx ! 0), simplex ! (idx ! 1), simplex ! (idx ! 2)];
          fx = [fx ! (idx ! 0), fx ! (idx ! 1), fx ! (idx ! 2)];
          x0m = (js_div (js_add (fst (simplex ! 0)) (fst (simplex ! 1))) (Fin 2),
                 js_div (js_add (snd (simplex ! 0)) (snd (simplex ! 1))) (Fin 2));
          xr = nm_move x0m alpha x0m (simplex ! 2);
          fxr = f xr
      in if js_lt fxr (fx ! 0) then
           (let xe = nm_move x0m gamma xr x0m; fxe = f xe
            in if js_lt fxe fxr then (simplex[2 := xe], fx[2 := fxe])
               else (simplex[2 := xr], fx[2 := fxr]))
         else if js_lt fxr (fx ! 1) then (simplex[2 := xr], fx[2 := fxr])
         else
           (let xc = nm_move x0m rho (simplex ! 2) x0m; fxc = f xc
            in if js_lt fxc (fx ! 2) then (simplex[2 := xc], fx[2 := fxc])
               else
                 (let s1 = nm_move (simplex ! 0) sigma (simplex ! 1) (simplex ! 0);
                      s2 = nm_move (simplex ! 0) sigma (simplex ! 2) (simplex ! 0);
                      simplex = [simplex ! 0, s1, s2]
                  in (simplex, [f (simplex ! 0), f (simplex ! 1), f (simplex ! 2)]))))"

text \<open>
  \<^verbatim>\<open>const fmean = (fx[0]+fx[1]+fx[2])/3;\<close>
  \<^verbatim>\<open>const ss = Math.sqrt(((fx[0]-fmean)**2 + (fx[1]-fmean)**2 + (fx[2]-fmean)**2)/3);\<close>
\<close>

definition nm_spread :: "jsnum list \<Rightarrow> jsnum" where
  "nm_spread fx =
     (let fmean = js_div (js_add (js_add (fx ! 0) (fx ! 1)) (fx ! 2)) (Fin 3)
      in js_sqrt (js_div
           (js_add (js_add (js_pow (js_sub (fx ! 0) fmean) (Fin 2))
                           (js_pow (js_sub (fx ! 1) fmean) (Fin 2)))
                   (js_pow (js_sub (fx ! 2) fmean) (Fin 2)))
           (Fin 3)))"

text \<open>
  The loop \<^verbatim>\<open>for(let iter=0; iter<maxIter; iter++)\<close> with its \<^verbatim>\<open>break\<close>; the first
  argument counts the iterations that remain.
\<close>

fun nm_loop :: "(point \<Rightarrow> jsnum) \<Rightarrow> jsnum \<Rightarrow> nat \<Rightarrow> nm_state \<Rightarrow> nm_state" where
  "nm_loop f eps 0 st = st"
| "nm_loop f eps (Suc k) st =
     (let st' = nm_step f st
      in if js_lt (nm_spread (snd st')) eps then st' else nm_loop f eps k st')"

record nm_result =
  res_x :: point
  res_fx :: jsnum

definition nelderMead :: "(point \<Rightarrow> jsnum) \<Rightarrow> point \<Rightarrow> options \<Rightarrow> nm_result" where
  "nelderMead f x0 opts =
     (let simplex = init_simplex x0;
          fx = map f simplex;
          st = nm_loop f (nm_tol opts) (nm_maxIter opts) (simplex, fx);
          simplex = fst st; fx = snd st;
          bestIdx = (if js_le (fx ! 0) (fx ! 1) \<and> js_le (fx ! 0) (fx ! 2) then 0
                     else if js_le (fx ! 1) (fx ! 2) then 1 else 2)
      in \<lparr>res_x = simplex ! bestIdx, res_fx = fx ! bestIdx\<rparr>)"

section \<open>Fitting\<close>

text \<open>The options \<^verbatim>\<open>{maxIter:1500, tol:1e-8}\<close> that \<^verbatim>\<open>fitWeibull\<close> passes.\<close>

definition fit_options :: options where
  "fit_options = \<lparr>maxIter = Some 1500, tol = Some (Fin (1 / 100000000))\<rparr>"

record fit_result =
  fit_beta :: jsnum
  fit_eta :: jsnum
  fit_fx :: jsnum

definition fitWeibull :: "jsnum list \<Rightarrow> jsnum list \<Rightarrow> fit_result" where
  "fitWeibull failures susp =
     (let meanF = (if length failures > 0
                   then js_div (foldl (\<lambda>a b. js_add a b) (Fin 0) failures)
                               (Fin (real (length failures)))
                   else Fin 1000);
          x0 = (Fin (3 / 2), js_or meanF (Fin 1000));
          res = nelderMead (\<lambda>p. negLogLik p failures susp) x0 fit_options
      in \<lparr>fit_beta = js_max (Fin (1 / 1000000)) (fst (res_x res)),
          fit_eta = js_max (Fin (1 / 1000000)) (snd (res_x res)),
          fit_fx = res_fx res\<rparr>)"

section \<open>Bootstrap confidence intervals\<close>

text \<open>
  \<^verbatim>\<open>Math.random()\<close> yields a number in \<open>[0, 1)\<close>. The random source is explicit: a sequence
  of such numbers and the position of the next one, which every draw advances.
  \<^verbatim>\<open>bootstrapCI\<close> is asynchronous only to yield to the page every 50 replicates; the
  model gives the value its promise resolves to.
\<close>

typedef unit_real = "{r :: real. 0 \<le> r \<and> r < 1}"
  by (rule exI [of _ 0]) simp

type_synonym event = "jsnum \<times> bool"

text \<open>\<^verbatim>\<open>events[Math.floor(Math.random()*events.length)]\<close>\<close>

definition pick :: "unit_real \<Rightarrow> event list \<Rightarrow> event" where
  "pick r events = events ! nat \<lfloor>Rep_unit_real r * real (length events)\<rfloor>"

fun draw_sample :: "(nat \<Rightarrow> unit_real) \<Rightarrow> event list \<Rightarrow> nat \<Rightarrow> nat \<Rightarrow> event list \<times> nat" where
  "draw_sample rnd events pos 0 = ([], pos)"
| "draw_sample rnd events pos (Suc j) =
     (let e = pick (rnd pos) events;
          (rest, pos') = draw_sample rnd events (Suc pos) j
      in (e # rest, pos'))"

text \<open>The replicate loop; the fourth argument counts the replicates that remain.\<close>

fun boot_loop ::
  "(nat \<Rightarrow> unit_real) \<Rightarrow> event list \<Rightarrow> nat \<Rightarrow> nat \<Rightarrow> point list \<Rightarrow> point list \<times> nat" where
  "boot_loop rnd events pos 0 boots = (boots, pos)"
| "boot_loop rnd events pos (Suc i) boots =
     (let (sample, pos') = draw_sample rnd events pos (length events);
          sf = map fst (filter (\<lambda>x. \<not> snd x) sample);
          ss = map fst (filter (\<lambda>x. snd x) sample);
          res = fitWeibull sf ss;
          boots = (if is_finite (fit_beta res) \<and> is_finite (fit_eta res)
                   then boots @ [(fit_beta res, fit_eta res)] else boots)
      in boot_loop rnd events pos' i boots)"

text \<open>
  Reading an array at a number: the element when the number is an integer index inside
  the array, \<^verbatim>\<open>undefined\<close> otherwise.
\<close>

datatype 'a slot = Undefined | Elem 'a

fun js_index :: "'a list \<Rightarrow> jsnum \<Rightarrow> 'a slot" where
  "js_index xs (Fin r) =
     (if r = of_int \<lfloor>r\<rfloor> \<and> 0 \<le> r \<and> nat \<lfloor>r\<rfloor> < length xs then Elem (xs ! nat \<lfloor>r\<rfloor>)
      else Undefined)"
| "js_index xs a = Undefined"

record ci_result =
  beta_ci :: "jsnum slot \<times> jsnum slot"
  eta_ci :: "jsnum slot \<times> jsnum slot"
  raw :: "point list"

text \<open>
  The array \<^verbatim>\<open>events\<close>: the failures with \<^verbatim>\<open>censored:false\<close>, then the suspensions with
  \<^verbatim>\<open>censored:true\<close>.
\<close>

definition make_events :: "jsnum list \<Rightarrow> jsnum list \<Rightarrow> event list" where
  "make_events failures susp = map (\<lambda>t. (t, False)) failures @ map (\<lambda>t. (t, True)) susp"

text \<open>
  \<^verbatim>\<open>bootstrapCI(failures, susp, nboot, conf=0.90)\<close>: the result is \<open>None\<close> for \<^verbatim>\<open>null\<close>;
  a missing \<^verbatim>\<open>conf\<close> is \<open>None\<close> and takes the default. The replicate count is a natural
  number. The second component is the position of the random source afterwards.
\<close>

definition bootstrapCI ::
  "(nat \<Rightarrow> unit_real) \<Rightarrow> nat \<Rightarrow> jsnum list \<Rightarrow> jsnum list \<Rightarrow> nat \<Rightarrow> jsnum option
     \<Rightarrow> ci_result option \<times> nat" where
  "bootstrapCI rnd pos failures susp nboot conf_arg =
     (let conf = (case conf_arg of None \<Rightarrow> Fin (9 / 10) | Some c \<Rightarrow> c);
          events = make_events failures susp
      in if length events < 3 then (None, pos)
         else
           (let (boots, pos') = boot_loop rnd events pos nboot [];
                betas = js_sort (\<lambda>a b. js_sub a b) (map fst boots);
                etas = js_sort (\<lambda>a b. js_sub a b) (map snd boots);
                n = Fin (real (length boots));
                low = js_floor (js_mul (js_div (js_sub (Fin 1) conf) (Fin 2)) n);
                high = js_ceil (js_mul (js_sub (Fin 1) (js_div (js_sub (Fin 1) conf) (Fin 2))) n);
                lo = js_max (Fin 0) low;
                hi = js_min (js_sub n (Fin 1)) (js_sub high (Fin 1))
            in (Some \<lparr>beta_ci = (js_index betas lo, js_index betas hi),
                      eta_ci = (js_index etas lo, js_index etas hi),
                      raw = boots\<rparr>, pos')))"

section \<open>Numerical integration and cost rates\<close>

text \<open>
  \<^verbatim>\<open>integrateR(Rfunc, args, a, b, n=400)\<close> calls \<^verbatim>\<open>Rfunc(t, ...args)\<close>; the integrand takes
  the abscissa and the argument array. The subinterval count is a natural number. The
  loop \<^verbatim>\<open>for(let i=0;i<=n;i++)\<close> runs over \<open>0, \<dots>, n\<close>.
\<close>

definition integrateR ::
  "(jsnum \<Rightarrow> jsnum list \<Rightarrow> jsnum) \<Rightarrow> jsnum list \<Rightarrow> jsnum \<Rightarrow> jsnum \<Rightarrow> nat \<Rightarrow> jsnum" where
  "integrateR Rfunc args a b n =
     (let h = js_div (js_sub b a) (Fin (real n));
          s = foldl (\<lambda>s i. let t = js_add a (js_mul (Fin (real i)) h)
                            in js_add s (Rfunc t args))
                    (Fin 0) [0 ..< Suc n]
      in js_mul s h)"

text \<open>\<^verbatim>\<open>R_weibull\<close> applied to the spread array; a missing argument is \<^verbatim>\<open>undefined\<close>,
  which arithmetic reads as \<^verbatim>\<open>NaN\<close>.\<close>

fun R_weibull_args :: "jsnum \<Rightarrow> jsnum list \<Rightarrow> jsnum" where
  "R_weibull_args t (beta # eta # rest) = R_weibull t beta eta"
| "R_weibull_args t [beta] = R_weibull t beta NaN"
| "R_weibull_args t [] = R_weibull t NaN NaN"

definition CPM_num :: "jsnum \<Rightarrow> jsnum \<Rightarrow> jsnum \<Rightarrow> jsnum \<Rightarrow> jsnum" where
  "CPM_num t beta eta C_PM =
     (if js_le t (Fin 0) then PInf
      else let integral = integrateR R_weibull_args [beta, eta] (Fin 0) t 300
           in js_div (js_mul C_PM (R_weibull t beta eta)) integral)"

definition CCM_num :: "jsnum \<Rightarrow> jsnum \<Rightarrow> jsnum \<Rightarrow> jsnum \<Rightarrow> jsnum" where
  "CCM_num t beta eta C_CM =
     (if js_le t (Fin 0) then PInf
      else let integral = integrateR R_weibull_args [beta, eta] (Fin 0) t 300;
               F = js_sub (Fin 1) (R_weibull t beta eta)
           in js_div (js_mul C_CM F) integral)"

definition CPUT_num :: "jsnum \<Rightarrow> jsnum \<Rightarrow> jsnum \<Rightarrow> jsnum \<Rightarrow> jsnum \<Rightarrow> jsnum" where
  "CPUT_num t beta eta C_PM C_CM =
     (if js_le t (Fin 0) then PInf
      else let integral = integrateR R_weibull_args [beta, eta] (Fin 0) t 300;
               F = js_sub (Fin 1) (R_weibull t beta eta)
           in js_div (js_add (js_mul C_PM (R_weibull t beta eta)) (js_mul C_CM F)) integral)"

text \<open>
  The composite trapezoidal rule on \<open>n\<close> equal subintervals, as the specification states
  it: \<open>h * (f(a)/2 + f(a+h) + \<dots> + f(a+(n-1)h) + f(b)/2)\<close> with \<open>h = (b-a)/n\<close>.
\<close>

definition trapezoid_spec ::
  "(jsnum \<Rightarrow> jsnum list \<Rightarrow> jsnum) \<Rightarrow> jsnum list \<Rightarrow> jsnum \<Rightarrow> jsnum \<Rightarrow> nat \<Rightarrow> jsnum" where
  "trapezoid_spec Rfunc args a b n =
     (let h = js_div (js_sub b a) (Fin (real n))
      in js_mul h
           (js_add (js_add (js_div (Rfunc a args) (Fin 2))
                           (js_sum (map (\<lambda>i. Rfunc (js_add a (js_mul (Fin (real i)) h)) args)
                                        [1 ..< n])))
                   (js_div (Rfunc b args) (Fin 2))))"


section \<open>Invariants of the simplex loop\<close>



definition stuck :: "nm_state \<Rightarrow> bool" where
  "stuck st = (\<exists>b0 b1 b2 e0 e1 e2.
      st = ([(Fin b0, e0), (Fin b1, e1), (Fin b2, e2)], [NaN, NaN, NaN])
      \<and> 3 / 2 \<le> b0 \<and> 3 / 2 \<le> b1 \<and> 3 / 2 \<le> b2
      \<and> (e0 = PInf \<or> e0 = NaN) \<and> (e1 = PInf \<or> e1 = NaN) \<and> (e2 = PInf \<or> e2 = NaN))"

definition stuck_nan :: "nm_state \<Rightarrow> bool" where
  "stuck_nan st = (stuck st \<and> snd (fst st ! 2) = NaN)"

section \<open>Arithmetic facts\<close>

lemma js_add_zero_left: "js_add (Fin 0) a = a"
  by (cases a) simp_all

lemma js_add_zero_right: "js_add a (Fin 0) = a"
  by (cases a) simp_all

lemma js_add_assoc: "js_add (js_add a b) c = js_add a (js_add b c)"
  by (cases a; cases b; cases c) simp_all

lemma foldl_js_add_shift:
  "foldl (\<lambda>acc x. js_add acc (g x)) (js_add a b) xs
     = js_add a (foldl (\<lambda>acc x. js_add acc (g x)) b xs)"
  by (induction xs arbitrary: b) (simp_all add: js_add_assoc)

lemma foldl_js_add_sum:
  "foldl (\<lambda>acc x. js_add acc (g x)) a xs = js_add a (js_sum (map g xs))"
proof (induction xs arbitrary: a)
  case Nil
  show ?case by (simp add: js_sum_def js_add_zero_right)
next
  case (Cons x xs)
  have "foldl (\<lambda>acc x. js_add acc (g x)) a (x # xs)
          = js_add (js_add a (g x)) (js_sum (map g xs))"
    using Cons.IH [of "js_add a (g x)"] by simp
  also have "\<dots> = js_add a (js_sum (map g (x # xs)))"
    by (simp add: js_sum_def js_add_assoc)
  finally show ?case .
qed

section \<open>Properties of the likelihood\<close>

text \<open>
  C1. When both parameters are above \<^verbatim>\<open>1e-6\<close>, \<^verbatim>\<open>negLogLik\<close> returns the negation of the
  sum over the failures of \<open>log(beta/eta) + (beta-1)*log(t/eta) - (t/eta)^beta\<close> plus the
  sum over the suspensions of \<open>-(s/eta)^beta\<close>, for every list of failure times and every
  list of suspension times.
\<close>

theorem negLogLik_formula:
  assumes "js_lt (Fin (1 / 1000000)) beta" and "js_lt (Fin (1 / 1000000)) eta"
  shows "negLogLik (beta, eta) failures susp = negLogLik_spec beta eta failures susp"
proof -
  have b: "\<not> js_le beta (Fin (1 / 1000000))"
    using assms(1) by (cases beta) simp_all
  have e: "\<not> js_le eta (Fin (1 / 1000000))"
    using assms(2) by (cases eta) simp_all
  have f: "(if length failures > 0
            then foldl (\<lambda>ll t. js_add ll (failure_term beta eta t)) (Fin 0) failures
            else Fin 0) = js_sum (map (failure_term beta eta) failures)"
    by (cases failures) (simp_all add: foldl_js_add_sum js_add_zero_left js_sum_def)
  have s: "\<And>a. (if length susp > 0
            then foldl (\<lambda>ll s. js_add ll (susp_term beta eta s)) a susp
            else a) = js_add a (js_sum (map (susp_term beta eta) susp))"
    by (cases susp) (simp_all add: foldl_js_add_sum js_add_zero_right js_sum_def)
  have "negLogLik (beta, eta) failures susp
          = js_neg (js_add (js_sum (map (failure_term beta eta) failures))
                           (js_sum (map (susp_term beta eta) susp)))"
    unfolding negLogLik_def Let_def using b e by (simp only: fst_conv snd_conv f s simp_thms if_False)
  also have "\<dots> = negLogLik_spec beta eta failures susp"
    unfolding negLogLik_spec_def failure_term_def susp_term_def ..
  finally show ?thesis .
qed

theorem negLogLik_formula_witness:
  "js_lt (Fin (1 / 1000000)) (Fin 2) \<and> js_lt (Fin (1 / 1000000)) (Fin 1)
   \<and> negLogLik (Fin 2, Fin 1) [Fin 1] [Fin 1] = Fin (2 - ln 2)"
  using negLogLik_formula [of "Fin 2" "Fin 1" "[Fin 1]" "[Fin 1]"]
  by (simp add: negLogLik_spec_def js_sum_def js_sub_def)

text \<open>
  C3. When a parameter is at or below \<^verbatim>\<open>1e-6\<close> (for instance \<open>beta = 0\<close> or \<open>eta = -1\<close>),
  \<^verbatim>\<open>negLogLik\<close> returns, for every dataset, the sentinel \<^verbatim>\<open>1e12\<close>: a finite number, at
  least \<^verbatim>\<open>1e11\<close>, neither an infinity nor \<^verbatim>\<open>NaN\<close>. The model has no error value: the
  early return precedes every use of the dataset.
\<close>

theorem negLogLik_sentinel:
  assumes "js_le beta (Fin (1 / 1000000)) \<or> js_le eta (Fin (1 / 1000000))"
  shows "negLogLik (beta, eta) failures susp = Fin 1000000000000
         \<and> is_finite (negLogLik (beta, eta) failures susp)
         \<and> js_le (Fin 100000000000) (negLogLik (beta, eta) failures susp)"
  using assms by (simp add: negLogLik_def)

theorem negLogLik_sentinel_witness:
  "(js_le (Fin 0) (Fin (1 / 1000000)) \<or> js_le (Fin (- 1)) (Fin (1 / 1000000)))
   \<and> negLogLik (Fin 0, Fin (- 1)) [Fin 100, NaN] [PInf] = Fin 1000000000000
   \<and> is_finite (negLogLik (Fin 0, Fin (- 1)) [Fin 100, NaN] [PInf])
   \<and> js_le (Fin 100000000000) (negLogLik (Fin 0, Fin (- 1)) [Fin 100, NaN] [PInf])"
  using negLogLik_sentinel [of "Fin 0" "Fin (- 1)" "[Fin 100, NaN]" "[PInf]"]
  by simp

section \<open>Properties of the optimizer's set-up\<close>

text \<open>
  C5, as the code has it. \<^verbatim>\<open>fitWeibull\<close> passes the tolerance \<^verbatim>\<open>1e-8\<close>, tighter than
  the optimizer's default \<^verbatim>\<open>1e-6\<close>, and the iteration cap 1500, which is lower than the
  optimizer's default cap of 2000.
\<close>

theorem fit_options_against_defaults:
  "nm_tol fit_options = Fin (1 / 100000000)
   \<and> nm_tol no_options = Fin (1 / 1000000)
   \<and> js_lt (nm_tol fit_options) (nm_tol no_options)
   \<and> nm_maxIter fit_options = 1500
   \<and> nm_maxIter no_options = 2000
   \<and> nm_maxIter fit_options < nm_maxIter no_options"
  by (simp add: nm_tol_def nm_maxIter_def fit_options_def no_options_def js_or_def)

text \<open>C5 as stated fails: the cap that \<^verbatim>\<open>fitWeibull\<close> passes is not above the default.\<close>

theorem fit_maxIter_not_raised:
  "\<not> nm_maxIter no_options < nm_maxIter fit_options"
  by (simp add: nm_maxIter_def fit_options_def no_options_def)



section \<open>Properties of the bootstrap guard\<close>

text \<open>
  C7. With fewer than 3 observations in all, \<^verbatim>\<open>bootstrapCI\<close> returns \<^verbatim>\<open>null\<close>, whatever
  the replicate count and the confidence level, and has drawn no random number: no
  replicate was resampled or fitted.
\<close>

theorem bootstrapCI_too_few:
  assumes "length failures + length susp < 3"
  shows "bootstrapCI rnd pos failures susp nboot conf = (None, pos)"
  using assms by (simp add: bootstrapCI_def make_events_def)

theorem bootstrapCI_too_few_witness:
  "length [Fin 100] + length [Fin 200] < 3
   \<and> bootstrapCI (\<lambda>k. Abs_unit_real 0) 0 [Fin 100] [Fin 200] 500 (Some (Fin (9 / 10)))
       = (None, 0)"
  using bootstrapCI_too_few
    [of "[Fin 100]" "[Fin 200]" "\<lambda>k. Abs_unit_real 0" 0 500 "Some (Fin (9 / 10))"]
  by simp

section \<open>Properties of the integration and the cost rates\<close>

text \<open>
  What \<^verbatim>\<open>integrateR\<close> computes for an integrand with finite values on finite bounds:
  the trapezoidal value and, on top of it, half the two end values times \<open>h\<close>.
\<close>

lemma foldl_fin_sum_list:
  "foldl (\<lambda>s i. js_add s (Fin (g i))) (Fin s0) xs = Fin (s0 + sum_list (map g xs))"
  by (induction xs arbitrary: s0) (simp_all add: add.assoc)

lemma js_sum_fin: "js_sum (map (\<lambda>i. Fin (g i)) xs) = Fin (sum_list (map g xs))"
  unfolding js_sum_def by (induction xs) simp_all

lemma sum_list_nodes:
  assumes "0 < n"
  shows "sum_list (map g [0 ..< Suc n]) = (g 0 :: real) + sum_list (map g [1 ..< n]) + g n"
proof -
  have "[0 ..< Suc n] = 0 # [Suc 0 ..< Suc n]"
    by (simp add: upt_rec [of 0] del: upt_Suc)
  moreover have "[Suc 0 ..< Suc n] = [Suc 0 ..< n] @ [n]"
    using assms by simp
  ultimately have "[0 ..< Suc n] = 0 # [1 ..< n] @ [n]"
    by simp
  then show ?thesis by (simp del: upt_Suc)
qed

lemma integrateR_excess:
  assumes f: "\<And>x. Rfunc (Fin x) args = Fin (f x)" and n: "0 < n"
  shows "integrateR Rfunc args (Fin a) (Fin b) n
           = js_add (trapezoid_spec Rfunc args (Fin a) (Fin b) n)
                    (Fin ((b - a) / real n * ((f a + f b) / 2)))"
proof -
  define h where "h = (b - a) / real n"
  define g where "g i = f (a + real i * h)" for i :: nat
  have g0: "g 0 = f a" by (simp add: g_def)
  have gn: "g n = f b" using n by (simp add: g_def h_def)
  have "integrateR Rfunc args (Fin a) (Fin b) n
          = js_mul (foldl (\<lambda>s i. js_add s (Fin (g i))) (Fin 0) [0 ..< Suc n]) (Fin h)"
    unfolding integrateR_def Let_def using n
    by (simp add: js_sub_def f g_def h_def del: upt_Suc)
  also have "\<dots> = Fin ((g 0 + sum_list (map g [1 ..< n]) + g n) * h)"
    by (simp add: foldl_fin_sum_list sum_list_nodes [OF n] del: upt_Suc)
  finally have i: "integrateR Rfunc args (Fin a) (Fin b) n
          = Fin ((f a + sum_list (map g [1 ..< n]) + f b) * h)"
    by (simp add: g0 gn)
  have "trapezoid_spec Rfunc args (Fin a) (Fin b) n
          = js_mul (Fin h) (js_add (js_add (js_div (Fin (f a)) (Fin 2))
                                           (js_sum (map (\<lambda>i. Fin (g i)) [1 ..< n])))
                                   (js_div (Fin (f b)) (Fin 2)))"
    unfolding trapezoid_spec_def Let_def using n
    by (simp add: js_sub_def f g_def h_def)
  also have "\<dots> = Fin (h * (f a / 2 + sum_list (map g [1 ..< n]) + f b / 2))"
    by (simp add: js_sum_fin)
  finally have t: "trapezoid_spec Rfunc args (Fin a) (Fin b) n
          = Fin (h * (f a / 2 + sum_list (map g [1 ..< n]) + f b / 2))" .
  show ?thesis
    unfolding i t h_def [symmetric] by (simp add: field_simps)
qed

text \<open>
  C2 fails on the code. \<^verbatim>\<open>integrateR\<close> adds the integrand at all \<open>n + 1\<close> nodes with
  weight 1 and multiplies by \<open>h\<close>; the two end nodes are not halved. For the constant
  integrand 1 on \<open>[0, 2]\<close> with two subintervals it returns 3, where the trapezoidal rule
  gives 2.
\<close>

theorem integrateR_not_trapezoid:
  "integrateR (\<lambda>t args. Fin 1) [] (Fin 0) (Fin 2) 2 = Fin 3
   \<and> trapezoid_spec (\<lambda>t args. Fin 1) [] (Fin 0) (Fin 2) 2 = Fin 2"
  by (simp add: integrateR_def trapezoid_spec_def js_sum_def js_sub_def upt_rec)

text \<open>
  C8. For \<open>t \<le> 0\<close> each of \<^verbatim>\<open>CPM_num\<close>, \<^verbatim>\<open>CCM_num\<close> and \<^verbatim>\<open>CPUT_num\<close> returns
  \<^verbatim>\<open>Infinity\<close>, for all shape and scale parameters and unit costs.
\<close>

theorem cost_rates_nonpositive_interval:
  assumes "js_le t (Fin 0)"
  shows "CPM_num t beta eta C_PM = PInf
         \<and> CCM_num t beta eta C_CM = PInf
         \<and> CPUT_num t beta eta C_PM C_CM = PInf"
  using assms by (simp add: CPM_num_def CCM_num_def CPUT_num_def)

theorem cost_rates_nonpositive_interval_witness:
  "js_le (Fin 0) (Fin 0)
   \<and> CPM_num (Fin 0) (Fin 2) (Fin 500) (Fin 1) = PInf
   \<and> CCM_num (Fin 0) (Fin 2) (Fin 500) (Fin 5) = PInf
   \<and> CPUT_num (Fin 0) (Fin 2) (Fin 500) (Fin 1) (Fin 5) = PInf"
  using cost_rates_nonpositive_interval [of "Fin 0" "Fin 2" "Fin 500" "Fin 1" "Fin 5"]
  by simp












section \<open>The search with infinite failure times\<close>

text \<open>
  When every failure time is \<^verbatim>\<open>Infinity\<close> the mean is \<^verbatim>\<open>Infinity\<close>, the starting point
  is \<^verbatim>\<open>[1.5, Infinity]\<close>, the likelihood is \<^verbatim>\<open>NaN\<close> at every vertex, and the search
  returns a vertex whose scale is \<^verbatim>\<open>NaN\<close>.
\<close>

lemma js_lt_NaN_right: "js_lt a NaN = False"
  by (cases a) simp_all

lemma js_le_NaN_right: "js_le a NaN = False"
  by (cases a) simp_all

lemma foldl_js_add_NaN: "foldl (\<lambda>acc x. js_add acc (g x)) NaN xs = NaN"
  by (induction xs) simp_all

lemma failure_term_infinite_time:
  assumes "b \<noteq> 0" and "e = PInf \<or> e = NaN"
  shows "failure_term (Fin b) e PInf = NaN"
  using assms by (auto simp: failure_term_def js_sub_def)

lemma negLogLik_infinite_times:
  assumes "fs \<noteq> []" and "\<forall>t \<in> set fs. t = PInf"
    and "3 / 2 \<le> b" and "e = PInf \<or> e = NaN"
  shows "negLogLik (Fin b, e) fs ss = NaN"
proof -
  from assms(1,2) obtain fs' where fs: "fs = PInf # fs'" by (cases fs) auto
  have g: "\<not> js_le (Fin b) (Fin (1 / 1000000))" using assms(3) by simp
  have g': "\<not> js_le e (Fin (1 / 1000000))" using assms(4) by auto
  have ft: "failure_term (Fin b) e PInf = NaN"
    using failure_term_infinite_time [of b e] assms(3,4) by auto
  have "foldl (\<lambda>ll t. js_add ll (failure_term (Fin b) e t)) (Fin 0) fs = NaN"
    unfolding fs by (simp add: ft foldl_js_add_NaN)
  then show ?thesis
    unfolding negLogLik_def Let_def using g g' assms(1)
    by (simp add: foldl_js_add_NaN)
qed

lemma sort_indices_all_NaN: "sort_indices [NaN, NaN, NaN] = [0, 1, 2]"
  by (simp add: sort_indices_def js_sort_def js_sub_def upt_rec)

lemma nm_spread_all_NaN: "nm_spread [NaN, NaN, NaN] = NaN"
  by (simp add: nm_spread_def js_sub_def)

lemma stuckI:
  assumes "3 / 2 \<le> b0" "3 / 2 \<le> b1" "3 / 2 \<le> b2"
    and "e0 = PInf \<or> e0 = NaN" "e1 = PInf \<or> e1 = NaN" "e2 = PInf \<or> e2 = NaN"
  shows "stuck ([(Fin b0, e0), (Fin b1, e1), (Fin b2, e2)], [NaN, NaN, NaN])"
  unfolding stuck_def using assms by blast

lemma nm_step_stuck:
  assumes f: "\<And>b e. 3 / 2 \<le> b \<Longrightarrow> e = PInf \<or> e = NaN \<Longrightarrow> f (Fin b, e) = NaN"
    and st: "stuck st"
  shows "stuck_nan (nm_step f st)"
proof -
  from st obtain b0 b1 b2 e0 e1 e2 where
    eq: "st = ([(Fin b0, e0), (Fin b1, e1), (Fin b2, e2)], [NaN, NaN, NaN])"
    and b: "3 / 2 \<le> b0" "3 / 2 \<le> b1" "3 / 2 \<le> b2"
    and e: "e0 = PInf \<or> e0 = NaN" "e1 = PInf \<or> e1 = NaN" "e2 = PInf \<or> e2 = NaN"
    unfolding stuck_def by blast
  define s1 where "s1 = nm_move (Fin b0, e0) sigma (Fin b1, e1) (Fin b0, e0)"
  define s2 where "s2 = nm_move (Fin b0, e0) sigma (Fin b2, e2) (Fin b0, e0)"
  have step: "nm_step f st = ([(Fin b0, e0), s1, s2], [f (Fin b0, e0), f s1, f s2])"
    unfolding nm_step_def eq s1_def s2_def
    by (simp add: sort_indices_all_NaN Let_def js_lt_NaN_right)
  have s1: "s1 = (Fin (b0 + (b1 - b0) / 2), NaN)"
    using e unfolding s1_def nm_move_def sigma_def by (auto simp: js_sub_def)
  have s2: "s2 = (Fin (b0 + (b2 - b0) / 2), NaN)"
    using e unfolding s2_def nm_move_def sigma_def by (auto simp: js_sub_def)
  have c1: "3 / 2 \<le> b0 + (b1 - b0) / 2" using b by argo
  have c2: "3 / 2 \<le> b0 + (b2 - b0) / 2" using b by argo
  have "nm_step f st = ([(Fin b0, e0), (Fin (b0 + (b1 - b0) / 2), NaN), (Fin (b0 + (b2 - b0) / 2), NaN)],
                        [NaN, NaN, NaN])"
    unfolding step s1 s2 using f [OF b(1) e(1)] f [OF c1] f [OF c2] by simp
  then show ?thesis
    unfolding stuck_nan_def stuck_def using b(1) e(1) c1 c2 by simp
qed

lemma nm_loop_stuck:
  assumes f: "\<And>b e. 3 / 2 \<le> b \<Longrightarrow> e = PInf \<or> e = NaN \<Longrightarrow> f (Fin b, e) = NaN"
  shows "stuck_nan st \<Longrightarrow> stuck_nan (nm_loop f eps k st)"
proof (induction k arbitrary: st)
  case 0
  then show ?case by simp
next
  case (Suc k)
  from Suc.prems have "stuck st" by (simp add: stuck_nan_def)
  from nm_step_stuck [of f, OF f this] have n: "stuck_nan (nm_step f st)" .
  then have "snd (nm_step f st) = [NaN, NaN, NaN]"
    by (auto simp: stuck_nan_def stuck_def)
  then have "\<not> js_lt (nm_spread (snd (nm_step f st))) eps"
    by (simp add: nm_spread_all_NaN)
  then show ?case using Suc.IH [OF n] by (simp add: Let_def)
qed

lemma nm_loop_stuck_first:
  assumes f: "\<And>b e. 3 / 2 \<le> b \<Longrightarrow> e = PInf \<or> e = NaN \<Longrightarrow> f (Fin b, e) = NaN"
    and st: "stuck st"
  shows "stuck_nan (nm_loop f eps (Suc k) st)"
proof -
  from nm_step_stuck [of f, OF f st] have n: "stuck_nan (nm_step f st)" .
  then have "snd (nm_step f st) = [NaN, NaN, NaN]"
    by (auto simp: stuck_nan_def stuck_def)
  then have "\<not> js_lt (nm_spread (snd (nm_step f st))) eps"
    by (simp add: nm_spread_all_NaN)
  then show ?thesis using nm_loop_stuck [of f, OF f n] by (simp add: Let_def)
qed

lemma mean_infinite_times:
  assumes "fs \<noteq> []" and "\<forall>t \<in> set fs. t = PInf"
  shows "js_div (foldl (\<lambda>a b. js_add a b) (Fin 0) fs) (Fin (real (length fs))) = PInf"
proof -
  have "\<And>a. a = PInf \<Longrightarrow> \<forall>t \<in> set xs. t = PInf \<Longrightarrow> foldl (\<lambda>a b. js_add a b) a xs = PInf" for xs
    by (induction xs) (simp_all add: signed_inf_def)
  moreover from assms obtain fs' where "fs = PInf # fs'" by (cases fs) auto
  ultimately have "foldl (\<lambda>a b. js_add a b) (Fin 0) fs = PInf"
    using assms(2) by simp
  then show ?thesis by (simp add: signed_inf_def)
qed

lemma fitWeibull_infinite_times:
  assumes "fs \<noteq> []" and "\<forall>t \<in> set fs. t = PInf"
  shows "fit_eta (fitWeibull fs ss) = NaN"
proof -
  define f where "f = (\<lambda>p. negLogLik p fs ss)"
  have f: "\<And>b e. 3 / 2 \<le> b \<Longrightarrow> e = PInf \<or> e = NaN \<Longrightarrow> f (Fin b, e) = NaN"
    unfolding f_def using negLogLik_infinite_times [OF assms] by blast
  have x0: "js_or (js_div (foldl (\<lambda>a b. js_add a b) (Fin 0) fs) (Fin (real (length fs)))) (Fin 1000)
              = PInf"
    unfolding mean_infinite_times [OF assms] by (simp add: js_or_def)
  have i: "init_simplex (Fin (3 / 2), PInf)
             = [(Fin (3 / 2), PInf), (Fin (33 / 20), PInf), (Fin (3 / 2), PInf)]"
    by (simp add: init_simplex_def signed_inf_def)
  have "stuck (init_simplex (Fin (3 / 2), PInf), map f (init_simplex (Fin (3 / 2), PInf)))"
    unfolding i by (simp add: f) (rule stuckI, simp_all)
  from nm_loop_stuck_first [of f, OF f this, of "nm_tol fit_options" 1499]
  have "stuck_nan (nm_loop f (nm_tol fit_options) (nm_maxIter fit_options)
          (init_simplex (Fin (3 / 2), PInf), map f (init_simplex (Fin (3 / 2), PInf))))"
    by (simp add: nm_maxIter_def fit_options_def)
  then obtain b0 b1 b2 e0 e1 where
    "nm_loop f (nm_tol fit_options) (nm_maxIter fit_options)
          (init_simplex (Fin (3 / 2), PInf), map f (init_simplex (Fin (3 / 2), PInf)))
      = ([(Fin b0, e0), (Fin b1, e1), (Fin b2, NaN)], [NaN, NaN, NaN])"
    unfolding stuck_nan_def stuck_def by auto
  then have "snd (res_x (nelderMead f (Fin (3 / 2), PInf) fit_options)) = NaN"
    unfolding nelderMead_def Let_def by simp
  then show ?thesis
    unfolding fitWeibull_def Let_def using assms(1) x0 by (simp add: f_def)
qed


section \<open>The search with finite failure times\<close>



















section \<open>Properties of the fit\<close>





section \<open>Properties of the bootstrap result\<close>

lemma pick_in_set:
  assumes "events \<noteq> []"
  shows "pick r events \<in> set events"
proof -
  have r: "0 \<le> Rep_unit_real r" "Rep_unit_real r < 1"
    using Rep_unit_real [of r] by auto
  have n: "0 < real (length events)" using assms by simp
  have "0 \<le> Rep_unit_real r * real (length events)" using r(1) by simp
  moreover have "Rep_unit_real r * real (length events) < real (length events)"
    using r(2) n by simp
  ultimately have "nat \<lfloor>Rep_unit_real r * real (length events)\<rfloor> < length events"
    by linarith
  then show ?thesis unfolding pick_def by simp
qed

lemma draw_sample_facts:
  assumes "events \<noteq> []"
  shows "set (fst (draw_sample rnd events pos j)) \<subseteq> set events
         \<and> length (fst (draw_sample rnd events pos j)) = j
         \<and> snd (draw_sample rnd events pos j) = pos + j"
proof (induction j arbitrary: pos)
  case 0
  show ?case by simp
next
  case (Suc j)
  from Suc.IH [of "Suc pos"] pick_in_set [OF assms, of "rnd pos"]
  show ?case by (simp add: Let_def split_beta)
qed

lemma boot_loop_infinite_times:
  assumes "events \<noteq> []" and "\<forall>e \<in> set events. e = (PInf, False)"
  shows "boot_loop rnd events pos k boots = (boots, pos + k * length events)"
proof (induction k arbitrary: pos)
  case 0
  show ?case by simp
next
  case (Suc k)
  define sample where "sample = fst (draw_sample rnd events pos (length events))"
  from draw_sample_facts [OF assms(1), of rnd pos "length events"]
  have s: "set sample \<subseteq> set events" "length sample = length events"
    and p: "snd (draw_sample rnd events pos (length events)) = pos + length events"
    unfolding sample_def by auto
  have all: "\<forall>e \<in> set sample. e = (PInf, False)" using s(1) assms(2) by blast
  have ne: "sample \<noteq> []" using s(2) assms(1) by auto
  have f: "filter (\<lambda>x. \<not> snd x) sample = sample" using all by (auto simp: filter_id_conv)
  have sf: "map fst (filter (\<lambda>x. \<not> snd x) sample) \<noteq> []"
    "\<forall>t \<in> set (map fst (filter (\<lambda>x. \<not> snd x) sample)). t = PInf"
    unfolding f using ne all by auto
  have "fit_eta (fitWeibull (map fst (filter (\<lambda>x. \<not> snd x) sample))
                  (map fst (filter (\<lambda>x. snd x) sample))) = NaN"
    by (rule fitWeibull_infinite_times [OF sf])
  then have "boot_loop rnd events pos (Suc k) boots
               = boot_loop rnd events (pos + length events) k boots"
    using p by (simp add: Let_def split_beta sample_def [symmetric])
  then show ?case using Suc.IH [of "pos + length events"] by (simp add: algebra_simps)
qed

lemma js_index_Nil: "js_index [] i = Undefined"
  by (cases i) simp_all

text \<open>
  C10. With at least 3 observations, when no replicate survives (every fit was discarded
  as non-finite, or there was no replicate), \<^verbatim>\<open>bootstrapCI\<close> returns a result object,
  not \<^verbatim>\<open>null\<close>; its four bounds are reads of empty arrays, \<^verbatim>\<open>undefined\<close>. The dataset of
  three failure times \<^verbatim>\<open>Infinity\<close> is one where every replicate is discarded.
\<close>

theorem bootstrapCI_no_survivors:
  assumes "3 \<le> length failures + length susp"
    and "fst (boot_loop rnd (make_events failures susp) pos nboot []) = []"
  shows "fst (bootstrapCI rnd pos failures susp nboot conf)
           = Some \<lparr>beta_ci = (Undefined, Undefined), eta_ci = (Undefined, Undefined), raw = []\<rparr>"
proof -
  have "\<not> length (make_events failures susp) < 3"
    using assms(1) by (simp add: make_events_def)
  then show ?thesis
    unfolding bootstrapCI_def Let_def using assms(2)
    by (simp add: split_beta js_sort_def js_index_Nil)
qed

theorem bootstrapCI_no_survivors_witness:
  "3 \<le> length [PInf, PInf, PInf] + length ([] :: jsnum list)
   \<and> fst (boot_loop (\<lambda>k. Abs_unit_real 0) (make_events [PInf, PInf, PInf] []) 0 2 []) = []
   \<and> fst (bootstrapCI (\<lambda>k. Abs_unit_real 0) 0 [PInf, PInf, PInf] [] 2 (Some (Fin (9 / 10))))
       = Some \<lparr>beta_ci = (Undefined, Undefined), eta_ci = (Undefined, Undefined), raw = []\<rparr>"
proof -
  have a: "3 \<le> length [PInf, PInf, PInf] + length ([] :: jsnum list)" by simp
  have b: "fst (boot_loop (\<lambda>k. Abs_unit_real 0) (make_events [PInf, PInf, PInf] []) 0 2 []) = []"
    by (subst boot_loop_infinite_times) (simp_all add: make_events_def)
  from bootstrapCI_no_survivors [OF a b] a b show ?thesis by blast
qed

end
